theory Spec2Isabelle
  imports Main
begin

section \<open>The POL bridge script (bridge.js) as functions over an explicit outside world\<close>

text \<open>
  The script talks to two chains through the ethers library and to the proof service
  through \<^verbatim>\<open>fetch\<close>. Every answer of the outside is a field of the record
  \<open>world\<close>, one field per call site of the script; every call the script makes, every
  pause and every console line is an \<open>event\<close> of the trace the modelled function returns.
  A JavaScript exception is the left injection of the result, carrying the error's
  \<^verbatim>\<open>message\<close> (the only part of an error the script reads).
\<close>

subsection \<open>Values\<close>

text \<open>What \<^verbatim>\<open>response.json()\<close> can resolve to. \<open>None\<close> of type \<open>json option\<close> is
  JavaScript's \<^verbatim>\<open>undefined\<close>. Numbers are kept as integers: the script only prints them.\<close>

datatype json =
    JNull
  | JBool bool
  | JNum int
  | JStr string
  | JArr "json list"
  | JObj "(string \<times> json) list"

text \<open>The property access \<^verbatim>\<open>data.result\<close>: a TypeError on \<^verbatim>\<open>null\<close>, the field of an
  object, \<^verbatim>\<open>undefined\<close> on anything else. (The engine's message has quotes around the
  property name; they are left out here.)\<close>

fun get_result :: "json \<Rightarrow> string + json option" where
  "get_result JNull = Inl ''Cannot read properties of null (reading result)''"
| "get_result (JObj kvs) = Inr (map_of kvs ''result'')"
| "get_result _ = Inr None"

text \<open>JavaScript truthiness of a JSON value.\<close>

fun truthy :: "json \<Rightarrow> bool" where
  "truthy JNull = False"
| "truthy (JBool b) = b"
| "truthy (JNum n) = (n \<noteq> 0)"
| "truthy (JStr s) = (s \<noteq> [])"
| "truthy _ = True"

text \<open>\<^verbatim>\<open>data.result?.length || 'Unknown'\<close>, for \<open>r\<close> the value of \<^verbatim>\<open>data.result\<close>.\<close>

fun length_or_unknown :: "json option \<Rightarrow> json" where
  "length_or_unknown None = JStr ''Unknown''"
| "length_or_unknown (Some (JStr s)) = (if s = [] then JStr ''Unknown'' else JNum (int (length s)))"
| "length_or_unknown (Some (JArr xs)) = (if xs = [] then JStr ''Unknown'' else JNum (int (length xs)))"
| "length_or_unknown (Some (JObj kvs)) =
     (case map_of kvs ''length'' of
        None \<Rightarrow> JStr ''Unknown''
      | Some v \<Rightarrow> if truthy v then v else JStr ''Unknown'')"
| "length_or_unknown (Some _) = JStr ''Unknown''"

text \<open>\<^verbatim>\<open>String.prototype.includes\<close>.\<close>

fun starts_with :: "string \<Rightarrow> string \<Rightarrow> bool" where
  "starts_with s [] = True"
| "starts_with [] (c # cs) = False"
| "starts_with (d # ds) (c # cs) = (d = c \<and> starts_with ds cs)"

fun str_includes :: "string \<Rightarrow> string \<Rightarrow> bool" where
  "str_includes [] sub = (sub = [])"
| "str_includes (c # cs) sub = (starts_with (c # cs) sub \<or> str_includes cs sub)"

text \<open>\<^verbatim>\<open>amountArg || '1'\<close>: an absent and an empty argument are both falsy.\<close>

definition or_default :: "string option \<Rightarrow> string \<Rightarrow> string" where
  "or_default a d = (case a of None \<Rightarrow> d | Some s \<Rightarrow> if s = [] then d else s)"

subsection \<open>Amounts\<close>

definition is_digit :: "char \<Rightarrow> bool" where
  "is_digit c = (c \<in> set ''0123456789'')"

definition digit_val :: "char \<Rightarrow> int" where
  "digit_val c = int (of_char c) - 48"

definition digits_val :: "string \<Rightarrow> int" where
  "digits_val ds = foldl (\<lambda>acc c. 10 * acc + digit_val c) 0 ds"

text \<open>Modelled from the spec: \<^verbatim>\<open>ethers.parseEther\<close> belongs to the ethers library, which is
  not part of the repository's sources. The spec's data model describes the conversion as
  fixed-point scaling of a decimal quantity by the token's 18 decimals into an integer of
  the smallest unit. The definition follows the library's parser: an optional minus sign,
  digits, an optional point, digits, at least one digit in all; more than 18 decimals are
  accepted only when the excess is zeros; the value must fit 512 signed bits.\<close>

definition parseEther :: "string \<Rightarrow> string + int" where
  "parseEther s =
    (let (neg, r0) = (case s of c # cs \<Rightarrow> if c = CHR ''-'' then (True, cs) else (False, s) | [] \<Rightarrow> (False, s));
         whole = takeWhile is_digit r0;
         r1 = dropWhile is_digit r0;
         r2 = (case r1 of c # cs \<Rightarrow> if c = CHR ''.'' then cs else r1 | [] \<Rightarrow> r1);
         decimal = takeWhile is_digit r2;
         r3 = dropWhile is_digit r2
     in if r3 \<noteq> [] \<or> length whole + length decimal = 0 then Inl ''invalid FixedNumber string value''
        else if filter (\<lambda>c. c \<noteq> CHR ''0'') (drop 18 decimal) \<noteq> [] then Inl ''too many decimals for format''
        else
          (let padded = take 18 (decimal @ replicate (18 - length decimal) (CHR ''0''));
               magnitude = digits_val (whole @ padded);
               v = (if neg then - magnitude else magnitude)
           in if v < - (2 ^ 511) \<or> 2 ^ 511 \<le> v then Inl ''overflow'' else Inr v))"

subsection \<open>Events and the outside world\<close>

text \<open>A piece of a console line. \<open>Ether v\<close> stands for \<^verbatim>\<open>ethers.formatEther(v)\<close> and \<open>Num n\<close>
  for a number printed in decimal; \<open>Val v\<close> is a value printed as it is. The decorative
  symbols that open many of the script's messages are outside ASCII and are left out.\<close>

datatype frag = Str string | Num nat | Ether int | Val "json option"

datatype arg = Address string | Uint int | Bytes "json option"

text \<open>\<open>SendTx c m args v\<close>: method \<open>m\<close> of the contract at \<open>c\<close> is called through a signing
  wallet with arguments \<open>args\<close> and the override \<^verbatim>\<open>{value: v}\<close> when \<open>v\<close> is given.
  \<open>WaitTx h\<close>: \<^verbatim>\<open>tx.wait()\<close> for the transaction with hash \<open>h\<close>. \<open>Sleep ms\<close>: the timer
  \<^verbatim>\<open>setTimeout(resolve, ms)\<close> awaited.\<close>

datatype event =
    Log "frag list"
  | LogError "frag list"
  | GetCode string
  | StaticCall string string "arg list"
  | SendTx string string "arg list" "int option"
  | WaitTx string
  | Fetch string
  | Sleep nat

text \<open>How a state-changing contract call ends: the call itself is rejected with a message;
  or a transaction with a hash is returned and waiting for it is rejected; or it is mined.\<close>

datatype tx_outcome = Rejected string | Reverted string string | Mined string

text \<open>How a \<^verbatim>\<open>fetch\<close> ends: rejected (network failure), or a response with its status and
  what \<^verbatim>\<open>response.json()\<close> gives (rejected with a message when the body is not JSON).\<close>

datatype fetch_outcome = NetworkError string | Response nat "string + json"

record world =
  argv2 :: "string option"
  argv3 :: "string option"
  AUTO_COMPLETE :: "string option"
  DEPOSIT_MANAGER :: string
  POL_SEPOLIA :: string
  POL_AMOY :: string
  ERC20_PREDICATE :: string
  WITHDRAW_MANAGER :: string
  wallet_address :: string
  getCode_result :: "string + string"
  balanceOf_result :: "string + int"
  approve_result :: tx_outcome
  deposit_result :: tx_outcome
  withdraw_result :: tx_outcome
  fetch_result :: "nat \<Rightarrow> fetch_outcome"
  startExit_result :: tx_outcome
  processExits_result :: tx_outcome
  processExits_retry_result :: tx_outcome

text \<open>\<open>fetch_result w i\<close> answers the request of loop iteration \<open>i\<close> (counted from 0);
  \<open>processExits_result\<close> answers the call of line 250 (and of \<open>finalizeExit\<close>, which is a
  run of its own), \<open>processExits_retry_result\<close> the call of line 268.\<close>

subsection \<open>Computations with a trace and exceptions\<close>

type_synonym 'a io = "event list \<times> (string + 'a)"

definition io_return :: "'a \<Rightarrow> 'a io" where
  "io_return x = ([], Inr x)"

definition io_throw :: "string \<Rightarrow> 'a io" where
  "io_throw m = ([], Inl m)"

definition io_emit :: "event list \<Rightarrow> unit io" where
  "io_emit es = (es, Inr ())"

definition io_lift :: "string + 'a \<Rightarrow> 'a io" where
  "io_lift r = ([], r)"

definition io_prepend :: "event list \<Rightarrow> 'a io \<Rightarrow> 'a io" where
  "io_prepend t m = (t @ fst m, snd m)"

definition io_bind :: "'a io \<Rightarrow> ('a \<Rightarrow> 'b io) \<Rightarrow> 'b io" where
  "io_bind m f = (case snd m of Inl e \<Rightarrow> (fst m, Inl e) | Inr x \<Rightarrow> io_prepend (fst m) (f x))"

text \<open>\<^verbatim>\<open>try { m } catch (e) { h(e.message) }\<close>.\<close>

definition io_try :: "'a io \<Rightarrow> (string \<Rightarrow> 'a io) \<Rightarrow> 'a io" where
  "io_try m h = (case snd m of Inl e \<Rightarrow> io_prepend (fst m) (h e) | Inr x \<Rightarrow> m)"

text \<open>\<^verbatim>\<open>const tx = await contract.method(args, {value}); await tx.wait();\<close> and the hash of
  the transaction.\<close>

definition send_and_wait :: "string \<Rightarrow> string \<Rightarrow> arg list \<Rightarrow> int option \<Rightarrow> tx_outcome \<Rightarrow> string io" where
  "send_and_wait c m args v out =
    (case out of
       Rejected e \<Rightarrow> ([SendTx c m args v], Inl e)
     | Reverted h e \<Rightarrow> ([SendTx c m args v, WaitTx h], Inl e)
     | Mined h \<Rightarrow> ([SendTx c m args v, WaitTx h], Inr h))"

definition sepolia_tx_url :: "string \<Rightarrow> string" where
  "sepolia_tx_url h = ''https://sepolia.etherscan.io/tx/'' @ h"

definition amoy_tx_url :: "string \<Rightarrow> string" where
  "amoy_tx_url h = ''https://amoy.polygonscan.com/tx/'' @ h"

definition proofUrl :: "string \<Rightarrow> string" where
  "proofUrl txHash =
     ''https://proof-generator.polygon.technology/api/v1/amoy/exit-payload/'' @ txHash @
     ''?eventSignature=0xebff2602b3f468259e1e99f613fed6691f3a6526effe6ef3e768ba7ae7a36c4f''"

subsection \<open>bridgePOL (deposit)\<close>

definition bridgePOL :: "world \<Rightarrow> unit io" where
  "bridgePOL w =
    (let amount = or_default (argv3 w) ''1'' in
     io_bind (io_lift (parseEther amount)) (\<lambda>amountWei.
     io_bind (io_emit
       [Log [Str ''Depositing '', Str amount, Str '' POL ('', Ether amountWei, Str '' POL)''],
        Log [Str ''1) Approving DepositManager on Sepolia'']]) (\<lambda>_.
     io_bind (send_and_wait (POL_SEPOLIA w) ''approve''
                [Address (DEPOSIT_MANAGER w), Uint amountWei] None (approve_result w)) (\<lambda>approveHash.
     io_bind (io_emit
       [Log [Str ''Approval:'', Str (sepolia_tx_url approveHash)],
        Log [Str ''2) depositERC20ForUser on Sepolia'']]) (\<lambda>_.
     io_bind (send_and_wait (DEPOSIT_MANAGER w) ''depositERC20ForUser''
                [Address (POL_SEPOLIA w), Address (wallet_address w), Uint amountWei] None
                (deposit_result w)) (\<lambda>depositHash.
     io_emit
       [Log [Str ''Deposit:'', Str (sepolia_tx_url depositHash)],
        Log [Str ''Deposit confirmed - funds will arrive on Amoy in ~25 min.'']]))))))"

subsection \<open>waitForCheckpoint\<close>

definition maxAttempts :: nat where
  "maxAttempts = 360"

definition checkpoint_timeout :: string where
  "checkpoint_timeout = ''Checkpoint timeout - transaction not checkpointed after 180 minutes''"

text \<open>\<^verbatim>\<open>response.ok\<close> of the fetch standard: a status from 200 to 299.\<close>

definition response_ok :: "nat \<Rightarrow> bool" where
  "response_ok status = (200 \<le> status \<and> status \<le> 299)"

text \<open>One pass through the \<^verbatim>\<open>try\<close>/\<^verbatim>\<open>catch\<close> of the loop body (lines 169 to 191): its
  trace, and \<open>Some data\<close> when line 180 returns, \<open>None\<close> when control reaches line 193.\<close>

definition poll_once :: "world \<Rightarrow> string \<Rightarrow> nat \<Rightarrow> event list \<times> json option" where
  "poll_once w url attempts =
    (let pre = [Log [Str ''Attempt '', Num (attempts + 1), Str ''/'', Num maxAttempts,
                     Str '' - Checking checkpoint...''],
                Fetch url]
     in case fetch_result w attempts of
          NetworkError e \<Rightarrow> (pre @ [Log [Str ''Error checking status: '', Str e]], None)
        | Response status body \<Rightarrow>
            if response_ok status then
              (case body of
                 Inl e \<Rightarrow> (pre @ [Log [Str ''Error checking status: '', Str e]], None)
               | Inr data \<Rightarrow>
                   (case get_result data of
                      Inl e \<Rightarrow>
                        (pre @ [Log [Str ''Transaction checkpointed! Proof generated successfully.''],
                                Log [Str ''Error checking status: '', Str e]], None)
                    | Inr r \<Rightarrow>
                        (pre @ [Log [Str ''Transaction checkpointed! Proof generated successfully.''],
                                Log [Str ''Proof data length:'', Val (Some (length_or_unknown r))]],
                         Some data)))
            else if status = 400 then
              (pre @ [Log [Str ''Not checkpointed yet... waiting 30 seconds'']], None)
            else
              (pre @ [Log [Str ''API returned status '', Num status, Str '', retrying...'']], None))"

function waitForCheckpoint_loop :: "world \<Rightarrow> string \<Rightarrow> nat \<Rightarrow> json io" where
  "waitForCheckpoint_loop w url attempts =
    (if attempts < maxAttempts then
       (case snd (poll_once w url attempts) of
          Some data \<Rightarrow> (fst (poll_once w url attempts), Inr data)
        | None \<Rightarrow>
            io_prepend (fst (poll_once w url attempts) @ [Sleep 30000])
              (waitForCheckpoint_loop w url (Suc attempts)))
     else io_throw checkpoint_timeout)"
  by pat_completeness auto
termination
  by (relation "measure (\<lambda>(w, url, attempts). maxAttempts - attempts)") auto

definition waitForCheckpoint :: "world \<Rightarrow> string \<Rightarrow> json io" where
  "waitForCheckpoint w txHash =
     io_prepend [Log [Str ''Polling checkpoint status...'']]
       (waitForCheckpoint_loop w (proofUrl txHash) 0)"


subsection \<open>processExit\<close>

text \<open>The inner \<^verbatim>\<open>try\<close>/\<^verbatim>\<open>catch\<close> of lines 223 to 236: submit the proof; a failure whose
  message includes KNOWN_EXIT is logged and dropped, any other is thrown again.\<close>

definition start_exit :: "world \<Rightarrow> json \<Rightarrow> unit io" where
  "start_exit w proofData =
     io_try
       (io_bind (io_lift (get_result proofData)) (\<lambda>r.
        io_bind (send_and_wait (ERC20_PREDICATE w) ''startExitWithBurntTokens'' [Bytes r] None
                   (startExit_result w)) (\<lambda>startExitHash.
        io_emit [Log [Str ''StartExit:'', Str (sepolia_tx_url startExitHash)]])))
       (\<lambda>e. if str_includes e ''KNOWN_EXIT''
             then io_emit [Log [Str ''Exit already started for this transaction''],
                           Log [Str ''Proceeding to finalize exit...'']]
             else io_throw e)"

text \<open>The end of the outer \<^verbatim>\<open>catch\<close> (lines 279 to 281).\<close>

definition manual_hint_and_throw :: "json \<Rightarrow> string \<Rightarrow> unit io" where
  "manual_hint_and_throw proofData e =
     io_bind (io_emit [Log [Str ''You can complete the exit manually using the proof:'']]) (\<lambda>_.
     io_bind (io_lift (get_result proofData)) (\<lambda>r.
     io_bind (io_emit [Log [Str ''Proof data:'', Val r]]) (\<lambda>_.
     io_throw e)))"

definition processExit :: "world \<Rightarrow> json \<Rightarrow> unit io" where
  "processExit w proofData =
     io_try
       (io_bind (io_emit [Log [Str ''Step 1: Starting exit on ERC20 Predicate...'']]) (\<lambda>_.
        io_bind (start_exit w proofData) (\<lambda>_.
        io_bind (io_emit
          [Log [Str ''Step 2: Processing exit on Withdraw Manager...''],
           Log [Str ''Attempting to process exits (testnet - no challenge period)...'']]) (\<lambda>_.
        io_bind (send_and_wait (WITHDRAW_MANAGER w) ''processExits'' [Address (POL_SEPOLIA w)] None
                   (processExits_result w)) (\<lambda>processExitHash.
        io_emit
          [Log [Str ''ProcessExit:'', Str (sepolia_tx_url processExitHash)],
           Log [Str ''POL tokens released on Sepolia!'']])))))
       (\<lambda>e.
        io_bind (io_emit [LogError [Str ''Exit processing failed:'', Str e]]) (\<lambda>_.
        if str_includes e ''KNOWN_EXIT'' then
          io_bind (io_emit [Log [Str ''Exit already initiated! Trying to finalize immediately...'']]) (\<lambda>_.
          (case send_and_wait (WITHDRAW_MANAGER w) ''processExits'' [Address (POL_SEPOLIA w)] None
                  (processExits_retry_result w) of
             (t, Inr processExitHash) \<Rightarrow>
               (t @ [Log [Str ''ProcessExit:'', Str (sepolia_tx_url processExitHash)],
                     Log [Str ''POL tokens released on Sepolia!'']], Inr ())
           | (t, Inl finalizeError) \<Rightarrow>
               io_prepend
                 (t @ [Log [Str ''Could not immediately finalize. You can try:''],
                       Log [Str ''   npm run finalize'']])
                 (manual_hint_and_throw proofData e)))
        else manual_hint_and_throw proofData e))"

subsection \<open>withdrawPOL\<close>

text \<open>Lines 355 to 379: what follows a confirmed burn.\<close>

definition after_burn :: "world \<Rightarrow> string \<Rightarrow> unit io" where
  "after_burn w burnHash =
     io_bind (io_emit
       [Log [Str ''2) Waiting for checkpoint inclusion...''],
        Log [Str ''   This can take 90-180 minutes on testnet''],
        Log [Str ''   Burn tx:'', Str (amoy_tx_url burnHash)],
        Log [Str ''Next steps after checkpoint:''],
        Log [Str ''1. Generate proof from:'', Str (proofUrl burnHash)],
        Log [Str ''2. Use the proof with ERC20 Predicate contract on Sepolia''],
        Log [Str ''3. Process exit to complete withdrawal'']]) (\<lambda>_.
     if AUTO_COMPLETE w = Some ''true'' then
       io_bind (io_emit [Log [Str ''Auto-completion enabled, polling for checkpoint...'']]) (\<lambda>_.
       io_bind (waitForCheckpoint w burnHash) (\<lambda>proofData.
       io_bind (io_emit [Log [Str ''3) Processing exit on Sepolia...'']]) (\<lambda>_.
       io_bind (processExit w proofData) (\<lambda>_.
       io_emit [Log [Str ''Automatic withdrawal completed!'']]))))
     else
       io_emit [Log [Str ''Set AUTO_COMPLETE=true in .env to enable automated completion'']])"

text \<open>Lines 334 to 353 and the rest: the burn inside its \<^verbatim>\<open>try\<close>; the \<^verbatim>\<open>catch\<close> prints the
  message and returns from \<open>withdrawPOL\<close>.\<close>

definition burn :: "world \<Rightarrow> int \<Rightarrow> unit io" where
  "burn w withdrawAmount =
     (case io_bind (send_and_wait (POL_AMOY w) ''withdraw'' [Uint withdrawAmount]
                      (Some withdrawAmount) (withdraw_result w)) (\<lambda>burnHash.
           io_bind (io_emit [Log [Str ''Burn:'', Str (amoy_tx_url burnHash)]]) (\<lambda>_.
           io_return burnHash)) of
        (t, Inl e) \<Rightarrow> (t @ [LogError [Str ''Burn transaction failed:'', Str e]], Inr ())
      | (t, Inr burnHash) \<Rightarrow> io_prepend t (after_burn w burnHash))"

definition withdrawPOL :: "world \<Rightarrow> unit io" where
  "withdrawPOL w =
     io_bind (io_prepend [GetCode (POL_AMOY w)] (io_lift (getCode_result w))) (\<lambda>code.
     if code = ''0x'' then
       io_emit [LogError [Str ''No contract found at POL_AMOY ('', Str (POL_AMOY w),
         Str ''). Make sure you copied the *token* contract address (from Amoy Polygonscan Token Tracker), not the manager/predicate.'']]
     else
       io_bind (io_prepend [StaticCall (POL_AMOY w) ''balanceOf'' [Address (wallet_address w)]]
                  (io_lift (balanceOf_result w))) (\<lambda>bal.
       io_bind (io_emit [Log [Str ''Amoy POL balance:'', Ether bal]]) (\<lambda>_.
       (let amount = or_default (argv3 w) ''1'' in
        io_bind (io_lift (parseEther amount)) (\<lambda>withdrawAmount.
        io_bind (io_emit
          [Log [Str ''Withdrawing '', Str amount, Str '' POL ('', Ether withdrawAmount, Str '' POL)'']]) (\<lambda>_.
        if bal < withdrawAmount then
          io_emit [LogError [Str ''Insufficient balance. Need '', Ether withdrawAmount,
                             Str '' POL, have '', Ether bal, Str '' POL'']]
        else
          io_bind (io_emit
            [Log [Str ''Withdrawing:'', Ether withdrawAmount, Str ''POL''],
             Log [Str ''1) Calling withdraw function on POL contract'']]) (\<lambda>_.
          burn w withdrawAmount)))))))"

subsection \<open>checkStatus, completeExit, finalizeExit and main\<close>

text \<open>\<^verbatim>\<open>!txHash\<close> holds for an absent and for an empty argument alike, so the hash is read
  with the empty string as its default and tested against it.\<close>

definition checkStatus :: "world \<Rightarrow> unit io" where
  "checkStatus w =
     (let txHash = or_default (argv3 w) [] in
      if txHash = [] then
        io_emit [LogError [Str ''Please provide transaction hash''],
                 Log [Str ''Usage: node bridge.js check <transaction_hash>'']]
      else
        io_prepend
          [Log [Str ''Checking checkpoint status for: '', Str txHash], Fetch (proofUrl txHash)]
          (case fetch_result w 0 of
             NetworkError e \<Rightarrow> io_emit [LogError [Str ''Error checking status:'', Str e]]
           | Response status body \<Rightarrow>
               if response_ok status then
                 (case body of
                    Inl e \<Rightarrow> io_emit [LogError [Str ''Error checking status:'', Str e]]
                  | Inr data \<Rightarrow>
                      (case get_result data of
                         Inl e \<Rightarrow>
                           io_emit [Log [Str ''Transaction is checkpointed!''],
                                    LogError [Str ''Error checking status:'', Str e]]
                       | Inr r \<Rightarrow>
                           io_emit
                             [Log [Str ''Transaction is checkpointed!''],
                              Log [Str ''Proof data length:'', Val (Some (length_or_unknown r))],
                              Log [Str ''Links:''],
                              Log [Str ''   Transaction:'', Str (amoy_tx_url txHash)],
                              Log [Str ''   Proof API:'', Str (proofUrl txHash)],
                              Log [Str ''Ready to complete exit? Run:''],
                              Log [Str ''   node bridge.js exit '', Str txHash]]))
               else if status = 400 \<or> status = 404 then
                 io_emit
                   [Log [Str ''Transaction not yet checkpointed''],
                    Log [Str ''Current status: Waiting for checkpoint inclusion''],
                    Log [Str ''Links:''],
                    Log [Str ''   Transaction:'', Str (amoy_tx_url txHash)],
                    Log [Str ''   Check again: node bridge.js check'', Str txHash]]
               else io_emit [Log [Str ''API returned status '', Num status]]))"

definition completeExit :: "world \<Rightarrow> unit io" where
  "completeExit w =
     (let txHash = or_default (argv3 w) [] in
      if txHash = [] then
        io_emit [LogError [Str ''Please provide transaction hash''],
                 Log [Str ''Usage: node bridge.js exit <transaction_hash>'']]
      else
        io_prepend [Log [Str ''Completing exit for: '', Str txHash]]
          (io_try
             (io_bind (waitForCheckpoint w txHash) (\<lambda>proofData.
              io_bind (processExit w proofData) (\<lambda>_.
              io_emit [Log [Str ''Exit completed successfully!'']])))
             (\<lambda>e. io_emit [LogError [Str ''Exit completion failed:'', Str e]])))"

definition finalizeExit :: "world \<Rightarrow> unit io" where
  "finalizeExit w =
     io_prepend [Log [Str ''Finalizing exits after challenge period...'']]
       (io_try
          (io_bind (send_and_wait (WITHDRAW_MANAGER w) ''processExits'' [Address (POL_SEPOLIA w)] None
                      (processExits_result w)) (\<lambda>processExitHash.
           io_emit
             [Log [Str ''ProcessExit:'', Str (sepolia_tx_url processExitHash)],
              Log [Str ''All eligible POL tokens have been released on Sepolia!'']]))
          (\<lambda>e. io_emit
             [LogError [Str ''Finalization failed:'', Str e],
              Log [Str ''Make sure the 7-day challenge period has passed'']]))"

definition usage :: "event list" where
  "usage =
     [Log [Str ''Usage:''],
      Log [Str ''  node bridge.js deposit [amount]''],
      Log [Str ''  node bridge.js withdraw [amount]''],
      Log [Str ''  node bridge.js check <transaction_hash>''],
      Log [Str ''  node bridge.js exit <transaction_hash>''],
      Log [Str ''  node bridge.js finalize'']]"

definition main :: "world \<Rightarrow> unit io" where
  "main w =
     (let mode = argv2 w in
      if mode = Some ''deposit'' then bridgePOL w
      else if mode = Some ''withdraw'' then withdrawPOL w
      else if mode = Some ''check'' then checkStatus w
      else if mode = Some ''exit'' then completeExit w
      else if mode = Some ''finalize'' then finalizeExit w
      else io_emit usage)"

subsection \<open>Observations on a trace\<close>

fun is_tx :: "event \<Rightarrow> bool" where
  "is_tx (SendTx c m args v) = True"
| "is_tx _ = False"

fun is_fetch :: "event \<Rightarrow> bool" where
  "is_fetch (Fetch u) = True"
| "is_fetch _ = False"

fun is_net :: "event \<Rightarrow> bool" where
  "is_net (Fetch u) = True"
| "is_net (Sleep ms) = True"
| "is_net _ = False"

definition txs :: "event list \<Rightarrow> event list" where
  "txs t = filter is_tx t"

definition fetches :: "event list \<Rightarrow> event list" where
  "fetches t = filter is_fetch t"

fun is_console :: "event \<Rightarrow> bool" where
  "is_console (Log fs) = True"
| "is_console (LogError fs) = True"
| "is_console _ = False"

text \<open>What the run prints, on either console stream, in order.\<close>

definition console :: "event list \<Rightarrow> event list" where
  "console t = filter is_console t"

definition net :: "event list \<Rightarrow> event list" where
  "net t = filter is_net t"


fun tx_method :: "event \<Rightarrow> string option" where
  "tx_method (SendTx c m args v) = Some m"
| "tx_method _ = None"

definition calls :: "string \<Rightarrow> event list \<Rightarrow> event list" where
  "calls m t = filter (\<lambda>e. tx_method e = Some m) t"

text \<open>The message a contract call fails with, if it fails.\<close>

fun tx_failure :: "tx_outcome \<Rightarrow> string option" where
  "tx_failure (Rejected e) = Some e"
| "tx_failure (Reverted h e) = Some e"
| "tx_failure (Mined h) = None"

text \<open>The answers after which the poll loop goes on: a network failure, a status outside
  200 to 299, a body that is not JSON, or the JSON value \<^verbatim>\<open>null\<close>.\<close>

definition keeps_polling :: "fetch_outcome \<Rightarrow> bool" where
  "keeps_polling r =
     (case r of
        NetworkError e \<Rightarrow> True
      | Response status body \<Rightarrow>
          \<not> response_ok status \<or> (case body of Inl e \<Rightarrow> True | Inr data \<Rightarrow> data = JNull))"

text \<open>\<open>n\<close> unsuccessful rounds of the loop, seen from the network: a request, then a pause of
  30 seconds.\<close>

definition poll_rounds :: "string \<Rightarrow> nat \<Rightarrow> event list" where
  "poll_rounds url n = concat (replicate n [Fetch url, Sleep 30000])"

subsection \<open>Example worlds\<close>

definition proof0 :: json where
  "proof0 = JObj [(''result'', JStr ''0xf90a'')]"

definition w0 :: world where
  "w0 = \<lparr>argv2 = Some ''withdraw'', argv3 = Some ''5'', AUTO_COMPLETE = None,
     DEPOSIT_MANAGER = ''0xDM'', POL_SEPOLIA = ''0xPS'', POL_AMOY = ''0x1010'',
     ERC20_PREDICATE = ''0xEP'', WITHDRAW_MANAGER = ''0xWM'', wallet_address = ''0xME'',
     getCode_result = Inr ''0x6080'', balanceOf_result = Inr 20000000000000000000,
     approve_result = Mined ''0xa1'', deposit_result = Mined ''0xd1'',
     withdraw_result = Mined ''0xb1'',
     fetch_result = (\<lambda>i. if i < 3 then Response 400 (Inl ''Unexpected token'')
                        else Response 200 (Inr proof0)),
     startExit_result = Mined ''0xs1'', processExits_result = Mined ''0xp1'',
     processExits_retry_result = Mined ''0xp2''\<rparr>"


definition w_zero :: world where
  "w_zero = w0\<lparr>argv3 := Some ''0''\<rparr>"

definition w_poor :: world where
  "w_poor = w0\<lparr>argv3 := Some ''21''\<rparr>"

definition w_no_code :: world where
  "w_no_code = w0\<lparr>getCode_result := Inr ''0x''\<rparr>"

definition w_default :: world where
  "w_default = w0\<lparr>argv3 := None\<rparr>"

definition w_deposit :: world where
  "w_deposit = w0\<lparr>argv2 := Some ''deposit'', argv3 := None\<rparr>"

definition w_201 :: world where
  "w_201 = w0\<lparr>fetch_result := (\<lambda>i. Response 201 (Inr proof0))\<rparr>"

definition w_down :: world where
  "w_down = w0\<lparr>fetch_result := (\<lambda>i. NetworkError ''ECONNRESET'')\<rparr>"

definition w_known :: world where
  "w_known = w0\<lparr>argv2 := Some ''exit'', argv3 := Some ''0xb1'',
     startExit_result := Rejected ''execution reverted: KNOWN_EXIT''\<rparr>"




section \<open>Properties\<close>

subsection \<open>Traces and exceptions\<close>

declare waitForCheckpoint_loop.simps [simp del]

lemma io_bind_Inl [simp]: "io_bind (t, Inl e) f = (t, Inl e)"
  by (simp add: io_bind_def)

lemma io_bind_Inr [simp]: "io_bind (t, Inr x) f = io_prepend t (f x)"
  by (simp add: io_bind_def)

lemma io_prepend_pair [simp]: "io_prepend t (t', r) = (t @ t', r)"
  by (simp add: io_prepend_def)

lemma fst_io_prepend [simp]: "fst (io_prepend t m) = t @ fst m"
  by (simp add: io_prepend_def)

lemma snd_io_prepend [simp]: "snd (io_prepend t m) = snd m"
  by (simp add: io_prepend_def)

lemma io_try_Inl [simp]: "io_try (t, Inl e) h = io_prepend t (h e)"
  by (simp add: io_try_def)

lemma io_try_Inr [simp]: "io_try (t, Inr x) h = (t, Inr x)"
  by (simp add: io_try_def)

lemmas io_defs = io_emit_def io_lift_def io_return_def io_throw_def

lemma txs_append [simp]: "txs (a @ b) = txs a @ txs b"
  by (simp add: txs_def)

lemma txs_Nil [simp]: "txs [] = []"
  by (simp add: txs_def)

lemma txs_Cons [simp]: "txs (e # t) = (if is_tx e then e # txs t else txs t)"
  by (simp add: txs_def)

lemma withdrawPOL_no_code:
  "getCode_result w = Inr ''0x'' \<Longrightarrow>
   withdrawPOL w =
     ([GetCode (POL_AMOY w),
       LogError [Str ''No contract found at POL_AMOY ('', Str (POL_AMOY w),
         Str ''). Make sure you copied the *token* contract address (from Amoy Polygonscan Token Tracker), not the manager/predicate.'']],
      Inr ())"
  by (simp add: withdrawPOL_def io_defs)

lemma withdrawPOL_checked:
  assumes "getCode_result w = Inr code" "code \<noteq> ''0x''" "balanceOf_result w = Inr bal"
    and "parseEther (or_default (argv3 w) ''1'') = Inr a"
  shows "withdrawPOL w =
    (if bal < a then
       ([GetCode (POL_AMOY w),
         StaticCall (POL_AMOY w) ''balanceOf'' [Address (wallet_address w)],
         Log [Str ''Amoy POL balance:'', Ether bal],
         Log [Str ''Withdrawing '', Str (or_default (argv3 w) ''1''), Str '' POL ('', Ether a, Str '' POL)''],
         LogError [Str ''Insufficient balance. Need '', Ether a, Str '' POL, have '', Ether bal, Str '' POL'']],
        Inr ())
     else
       io_prepend
         [GetCode (POL_AMOY w),
          StaticCall (POL_AMOY w) ''balanceOf'' [Address (wallet_address w)],
          Log [Str ''Amoy POL balance:'', Ether bal],
          Log [Str ''Withdrawing '', Str (or_default (argv3 w) ''1''), Str '' POL ('', Ether a, Str '' POL)''],
          Log [Str ''Withdrawing:'', Ether a, Str ''POL''],
          Log [Str ''1) Calling withdraw function on POL contract'']]
         (burn w a))"
  using assms by (simp add: withdrawPOL_def io_defs Let_def io_prepend_def)

lemma burn_first:
  "\<exists>rest. fst (burn w a) = SendTx (POL_AMOY w) ''withdraw'' [Uint a] (Some a) # rest"
  by (cases "withdraw_result w") (simp_all add: burn_def send_and_wait_def io_defs)


lemma burn_manual:
  "AUTO_COMPLETE w \<noteq> Some ''true'' \<Longrightarrow> withdraw_result w = Mined h \<Longrightarrow>
   burn w a =
     ([SendTx (POL_AMOY w) ''withdraw'' [Uint a] (Some a), WaitTx h,
       Log [Str ''Burn:'', Str (amoy_tx_url h)],
       Log [Str ''2) Waiting for checkpoint inclusion...''],
       Log [Str ''   This can take 90-180 minutes on testnet''],
       Log [Str ''   Burn tx:'', Str (amoy_tx_url h)],
       Log [Str ''Next steps after checkpoint:''],
       Log [Str ''1. Generate proof from:'', Str (proofUrl h)],
       Log [Str ''2. Use the proof with ERC20 Predicate contract on Sepolia''],
       Log [Str ''3. Process exit to complete withdrawal''],
       Log [Str ''Set AUTO_COMPLETE=true in .env to enable automated completion'']],
      Inr ())"
  by (simp add: burn_def after_burn_def send_and_wait_def io_defs)



lemma net_append [simp]: "net (a @ b) = net a @ net b"
  by (simp add: net_def)

lemma net_Nil [simp]: "net [] = []"
  by (simp add: net_def)

lemma net_Cons [simp]: "net (e # t) = (if is_net e then e # net t else net t)"
  by (simp add: net_def)

lemma fetches_append [simp]: "fetches (a @ b) = fetches a @ fetches b"
  by (simp add: fetches_def)

lemma fetches_Nil [simp]: "fetches [] = []"
  by (simp add: fetches_def)

lemma fetches_Cons [simp]: "fetches (e # t) = (if is_fetch e then e # fetches t else fetches t)"
  by (simp add: fetches_def)

lemma get_result_Inl: "(\<exists>e. get_result d = Inl e) \<longleftrightarrow> d = JNull"
  by (cases d) simp_all

lemma poll_once_None: "snd (poll_once w url i) = None \<longleftrightarrow> keeps_polling (fetch_result w i)"
  using get_result_Inl
  by (auto simp: poll_once_def keeps_polling_def Let_def
      split: fetch_outcome.splits sum.splits)

lemma poll_once_Some:
  "snd (poll_once w url i) = Some data \<longleftrightarrow>
   (\<exists>status. fetch_result w i = Response status (Inr data) \<and> response_ok status \<and> data \<noteq> JNull)"
  using get_result_Inl
  by (auto simp: poll_once_def Let_def split: fetch_outcome.splits sum.splits)

lemma poll_once_net: "net (fst (poll_once w url i)) = [Fetch url]"
  by (simp add: poll_once_def Let_def split: fetch_outcome.splits sum.splits)

lemma poll_once_fetches: "fetches (fst (poll_once w url i)) = [Fetch url]"
  by (simp add: poll_once_def Let_def split: fetch_outcome.splits sum.splits)

lemma poll_once_txs: "txs (fst (poll_once w url i)) = []"
  by (simp add: poll_once_def Let_def split: fetch_outcome.splits sum.splits)

lemma poll_rounds_Suc: "poll_rounds url (Suc n) = [Fetch url, Sleep 30000] @ poll_rounds url n"
  by (simp add: poll_rounds_def)

lemma loop_timeout:
  "(\<forall>i. attempts \<le> i \<and> i < maxAttempts \<longrightarrow> keeps_polling (fetch_result w i)) \<Longrightarrow>
   snd (waitForCheckpoint_loop w url attempts) = Inl checkpoint_timeout \<and>
   net (fst (waitForCheckpoint_loop w url attempts)) = poll_rounds url (maxAttempts - attempts)"
proof (induction w url attempts rule: waitForCheckpoint_loop.induct)
  case (1 w url attempts)
  show ?case
  proof (cases "attempts < maxAttempts")
    case False
    then show ?thesis
      by (simp add: waitForCheckpoint_loop.simps [of w url attempts] io_throw_def poll_rounds_def)
  next
    case True
    with "1.prems" have none: "snd (poll_once w url attempts) = None"
      by (simp add: poll_once_None)
    have "\<forall>i. Suc attempts \<le> i \<and> i < maxAttempts \<longrightarrow> keeps_polling (fetch_result w i)"
      using "1.prems" by simp
    with "1.IH" [OF True none] have
      ih: "snd (waitForCheckpoint_loop w url (Suc attempts)) = Inl checkpoint_timeout"
        "net (fst (waitForCheckpoint_loop w url (Suc attempts))) = poll_rounds url (maxAttempts - Suc attempts)"
      by simp_all
    from True have "maxAttempts - attempts = Suc (maxAttempts - Suc attempts)"
      by simp
    with True none ih show ?thesis
      by (simp add: waitForCheckpoint_loop.simps [of w url attempts] poll_once_net poll_rounds_Suc)
  qed
qed

lemma loop_found:
  "attempts \<le> k \<Longrightarrow> k < maxAttempts \<Longrightarrow>
   (\<forall>i. attempts \<le> i \<and> i < k \<longrightarrow> keeps_polling (fetch_result w i)) \<Longrightarrow>
   snd (poll_once w url k) = Some data \<Longrightarrow>
   snd (waitForCheckpoint_loop w url attempts) = Inr data \<and>
   net (fst (waitForCheckpoint_loop w url attempts)) = poll_rounds url (k - attempts) @ [Fetch url]"
proof (induction w url attempts rule: waitForCheckpoint_loop.induct)
  case (1 w url attempts)
  from "1.prems" have lt: "attempts < maxAttempts"
    by simp
  show ?case
  proof (cases "attempts = k")
    case True
    with lt "1.prems" show ?thesis
      by (simp add: waitForCheckpoint_loop.simps [of w url k] poll_once_net poll_rounds_def)
  next
    case False
    with "1.prems" have less: "attempts < k"
      by simp
    with "1.prems" have none: "snd (poll_once w url attempts) = None"
      by (simp add: poll_once_None)
    have "\<forall>i. Suc attempts \<le> i \<and> i < k \<longrightarrow> keeps_polling (fetch_result w i)"
      using "1.prems" by simp
    with "1.IH" [OF lt none] less "1.prems" have
      ih: "snd (waitForCheckpoint_loop w url (Suc attempts)) = Inr data"
        "net (fst (waitForCheckpoint_loop w url (Suc attempts))) = poll_rounds url (k - Suc attempts) @ [Fetch url]"
      by simp_all
    from less have "k - attempts = Suc (k - Suc attempts)"
      by simp
    with lt none ih show ?thesis
      by (simp add: waitForCheckpoint_loop.simps [of w url attempts] poll_once_net poll_rounds_Suc)
  qed
qed

lemma loop_bound:
  "length (fetches (fst (waitForCheckpoint_loop w url attempts))) \<le> maxAttempts - attempts"
proof (induction w url attempts rule: waitForCheckpoint_loop.induct)
  case (1 w url attempts)
  show ?case
  proof (cases "attempts < maxAttempts")
    case False
    then show ?thesis
      by (simp add: waitForCheckpoint_loop.simps [of w url attempts] io_throw_def)
  next
    case True
    show ?thesis
    proof (cases "snd (poll_once w url attempts)")
      case None
      with "1.IH" [OF True None] True show ?thesis
        by (simp add: waitForCheckpoint_loop.simps [of w url attempts] poll_once_fetches)
    next
      case (Some data)
      with True show ?thesis
        by (simp add: waitForCheckpoint_loop.simps [of w url attempts] poll_once_fetches)
    qed
  qed
qed

lemma loop_sleeps:
  "\<forall>e \<in> set (net (fst (waitForCheckpoint_loop w url attempts))). e = Fetch url \<or> e = Sleep 30000"
proof (induction w url attempts rule: waitForCheckpoint_loop.induct)
  case (1 w url attempts)
  show ?case
  proof (cases "attempts < maxAttempts")
    case False
    then show ?thesis
      by (simp add: waitForCheckpoint_loop.simps [of w url attempts] io_throw_def)
  next
    case True
    show ?thesis
    proof (cases "snd (poll_once w url attempts)")
      case None
      with "1.IH" [OF True None] True show ?thesis
        by (simp add: waitForCheckpoint_loop.simps [of w url attempts] poll_once_net)
    next
      case (Some data)
      with True show ?thesis
        by (simp add: waitForCheckpoint_loop.simps [of w url attempts] poll_once_net)
    qed
  qed
qed

lemma loop_txs: "txs (fst (waitForCheckpoint_loop w url attempts)) = []"
proof (induction w url attempts rule: waitForCheckpoint_loop.induct)
  case (1 w url attempts)
  show ?case
  proof (cases "attempts < maxAttempts")
    case False
    then show ?thesis
      by (simp add: waitForCheckpoint_loop.simps [of w url attempts] io_throw_def)
  next
    case True
    show ?thesis
    proof (cases "snd (poll_once w url attempts)")
      case None
      with "1.IH" [OF True None] True show ?thesis
        by (simp add: waitForCheckpoint_loop.simps [of w url attempts] poll_once_txs)
    next
      case (Some data)
      with True show ?thesis
        by (simp add: waitForCheckpoint_loop.simps [of w url attempts] poll_once_txs)
    qed
  qed
qed

lemma loop_error:
  "snd (waitForCheckpoint_loop w url attempts) = Inl e \<Longrightarrow> e = checkpoint_timeout"
proof (induction w url attempts rule: waitForCheckpoint_loop.induct)
  case (1 w url attempts)
  show ?case
  proof (cases "attempts < maxAttempts")
    case False
    with "1.prems" show ?thesis
      by (simp add: waitForCheckpoint_loop.simps [of w url attempts] io_throw_def)
  next
    case True
    show ?thesis
    proof (cases "snd (poll_once w url attempts)")
      case None
      with "1.IH" [OF True None] True "1.prems" show ?thesis
        by (simp add: waitForCheckpoint_loop.simps [of w url attempts])
    next
      case (Some data)
      with True "1.prems" show ?thesis
        by (simp add: waitForCheckpoint_loop.simps [of w url attempts])
    qed
  qed
qed

lemma loop_result:
  "snd (waitForCheckpoint_loop w url attempts) = Inr data \<Longrightarrow>
   \<exists>k status. attempts \<le> k \<and> k < maxAttempts \<and> fetch_result w k = Response status (Inr data) \<and>
     response_ok status \<and> data \<noteq> JNull"
proof (induction w url attempts rule: waitForCheckpoint_loop.induct)
  case (1 w url attempts)
  show ?case
  proof (cases "attempts < maxAttempts")
    case False
    with "1.prems" show ?thesis
      by (simp add: waitForCheckpoint_loop.simps [of w url attempts] io_throw_def)
  next
    case True
    show ?thesis
    proof (cases "snd (poll_once w url attempts)")
      case None
      with True "1.prems" have "snd (waitForCheckpoint_loop w url (Suc attempts)) = Inr data"
        by (simp add: waitForCheckpoint_loop.simps [of w url attempts])
      from "1.IH" [OF True None this] show ?thesis
        using Suc_leD by blast
    next
      case (Some d)
      with True "1.prems" have "d = data"
        by (simp add: waitForCheckpoint_loop.simps [of w url attempts])
      with Some have "snd (poll_once w url attempts) = Some data"
        by simp
      then obtain status where "fetch_result w attempts = Response status (Inr data)"
        "response_ok status" "data \<noteq> JNull"
        by (auto simp: poll_once_Some)
      with True show ?thesis
        by blast
    qed
  qed
qed

subsection \<open>Amounts used in the examples\<close>

lemma parseEther_1: "parseEther ''1'' = Inr 1000000000000000000"
  by code_simp

lemma parseEther_5: "parseEther ''5'' = Inr 5000000000000000000"
  by code_simp

lemma parseEther_0: "parseEther ''0'' = Inr 0"
  by code_simp

lemma parseEther_21: "parseEther ''21'' = Inr 21000000000000000000"
  by code_simp


section \<open>The claims\<close>

text \<open>C1. For every withdrawal whose amount \<open>a\<close> (in wei, as \<open>parseEther\<close> gives it) is positive
  and at most the queried balance, the first transaction the script submits is the call of
  \<^verbatim>\<open>withdraw\<close> on the Amoy token contract with \<open>a\<close> both as the method argument and as the
  transaction value. For every amount above the balance no transaction is submitted, the
  function returns, and its last console line is the insufficient-balance error.
  (The balance is only queried when the code query found a contract.)\<close>

theorem withdrawPOL_burn_or_insufficient:
  assumes "getCode_result w = Inr code" and "code \<noteq> ''0x''"
    and "balanceOf_result w = Inr bal"
    and "parseEther (or_default (argv3 w) ''1'') = Inr a"
  shows "(0 < a \<and> a \<le> bal \<longrightarrow>
           (\<exists>rest. txs (fst (withdrawPOL w)) =
              SendTx (POL_AMOY w) ''withdraw'' [Uint a] (Some a) # rest)) \<and>
         (bal < a \<longrightarrow>
           txs (fst (withdrawPOL w)) = [] \<and> snd (withdrawPOL w) = Inr () \<and>
           last (fst (withdrawPOL w)) =
             LogError [Str ''Insufficient balance. Need '', Ether a, Str '' POL, have '',
                       Ether bal, Str '' POL''])"
proof (intro conjI impI)
  assume "0 < a \<and> a \<le> bal"
  then have "withdrawPOL w =
      io_prepend
         [GetCode (POL_AMOY w),
          StaticCall (POL_AMOY w) ''balanceOf'' [Address (wallet_address w)],
          Log [Str ''Amoy POL balance:'', Ether bal],
          Log [Str ''Withdrawing '', Str (or_default (argv3 w) ''1''), Str '' POL ('', Ether a, Str '' POL)''],
          Log [Str ''Withdrawing:'', Ether a, Str ''POL''],
          Log [Str ''1) Calling withdraw function on POL contract'']]
         (burn w a)"
    using withdrawPOL_checked [OF assms] by simp
  moreover obtain rest where "fst (burn w a) = SendTx (POL_AMOY w) ''withdraw'' [Uint a] (Some a) # rest"
    using burn_first by blast
  ultimately show "\<exists>rest. txs (fst (withdrawPOL w)) =
              SendTx (POL_AMOY w) ''withdraw'' [Uint a] (Some a) # rest"
    by simp
next
  assume "bal < a"
  then show "txs (fst (withdrawPOL w)) = []" "snd (withdrawPOL w) = Inr ()"
    "last (fst (withdrawPOL w)) =
             LogError [Str ''Insufficient balance. Need '', Ether a, Str '' POL, have '',
                       Ether bal, Str '' POL'']"
    using withdrawPOL_checked [OF assms] by simp_all
qed

theorem withdrawPOL_burn_or_insufficient_witness:
  "(\<exists>rest. txs (fst (withdrawPOL w0)) =
      SendTx ''0x1010'' ''withdraw'' [Uint 5000000000000000000] (Some 5000000000000000000) # rest) \<and>
   txs (fst (withdrawPOL w_poor)) = [] \<and> snd (withdrawPOL w_poor) = Inr () \<and>
   last (fst (withdrawPOL w_poor)) =
     LogError [Str ''Insufficient balance. Need '', Ether 21000000000000000000, Str '' POL, have '',
               Ether 20000000000000000000, Str '' POL'']"
  using withdrawPOL_burn_or_insufficient
      [of w0 "''0x6080''" 20000000000000000000 5000000000000000000]
    withdrawPOL_burn_or_insufficient
      [of w_poor "''0x6080''" 20000000000000000000 21000000000000000000]
  by (simp add: w0_def w_poor_def or_default_def parseEther_5 parseEther_21)

text \<open>C5. The script has no check that the amount is positive. With the argument \<^verbatim>\<open>0\<close> the
  amount is 0 wei and the burn transaction is submitted all the same.\<close>

theorem withdrawPOL_zero_amount_counterexample:
  "parseEther ''0'' = Inr 0 \<and>
   txs (fst (withdrawPOL w_zero)) = [SendTx ''0x1010'' ''withdraw'' [Uint 0] (Some 0)]"
  using withdrawPOL_checked [of w_zero "''0x6080''" 20000000000000000000 0]
    burn_manual [of w_zero "''0xb1''" 0]
  by (simp add: w_zero_def w0_def or_default_def parseEther_0)

text \<open>C5, as the code has it. The only validation of the amount is against the queried
  balance: an amount above the balance submits no transaction; every amount from zero up to
  the balance, zero included, reaches the burn call.\<close>

theorem withdrawPOL_balance_check_only:
  assumes "getCode_result w = Inr code" and "code \<noteq> ''0x''"
    and "balanceOf_result w = Inr bal"
    and "parseEther (or_default (argv3 w) ''1'') = Inr a"
  shows "(bal < a \<longrightarrow> txs (fst (withdrawPOL w)) = [] \<and> snd (withdrawPOL w) = Inr ()) \<and>
         (0 \<le> a \<and> a \<le> bal \<longrightarrow>
           (\<exists>rest. txs (fst (withdrawPOL w)) =
              SendTx (POL_AMOY w) ''withdraw'' [Uint a] (Some a) # rest))"
proof -
  obtain rest where "fst (burn w a) = SendTx (POL_AMOY w) ''withdraw'' [Uint a] (Some a) # rest"
    using burn_first by blast
  then show ?thesis
    using withdrawPOL_checked [OF assms] by simp
qed

theorem withdrawPOL_balance_check_only_witness:
  "(\<exists>rest. txs (fst (withdrawPOL w_zero)) = SendTx ''0x1010'' ''withdraw'' [Uint 0] (Some 0) # rest)"
  using withdrawPOL_balance_check_only [of w_zero "''0x6080''" 20000000000000000000 0]
  by (simp add: w_zero_def w0_def or_default_def parseEther_0)

text \<open>C8. When \<^verbatim>\<open>AUTO_COMPLETE\<close> is not the string \<^verbatim>\<open>true\<close> and the burn is mined with hash
  \<open>h\<close>, the withdrawal returns after printing the burn transaction's link (and the hint to
  enable automatic completion): the burn is the only transaction, and there is no request
  to the proof service and no pause, hence no polling and no exit processing.\<close>

theorem withdrawPOL_manual_handoff:
  assumes "getCode_result w = Inr code" and "code \<noteq> ''0x''"
    and "balanceOf_result w = Inr bal"
    and "parseEther (or_default (argv3 w) ''1'') = Inr a"
    and "a \<le> bal"
    and "AUTO_COMPLETE w \<noteq> Some ''true''"
    and "withdraw_result w = Mined h"
  shows "snd (withdrawPOL w) = Inr () \<and>
         txs (fst (withdrawPOL w)) = [SendTx (POL_AMOY w) ''withdraw'' [Uint a] (Some a)] \<and>
         net (fst (withdrawPOL w)) = [] \<and>
         Log [Str ''   Burn tx:'', Str (amoy_tx_url h)] \<in> set (fst (withdrawPOL w)) \<and>
         last (fst (withdrawPOL w)) =
           Log [Str ''Set AUTO_COMPLETE=true in .env to enable automated completion'']"
  using withdrawPOL_checked [OF assms(1-4)] burn_manual [OF assms(6,7), of a] assms(5)
  by simp

theorem withdrawPOL_manual_handoff_witness:
  "snd (withdrawPOL w0) = Inr () \<and>
   txs (fst (withdrawPOL w0)) =
     [SendTx ''0x1010'' ''withdraw'' [Uint 5000000000000000000] (Some 5000000000000000000)] \<and>
   net (fst (withdrawPOL w0)) = [] \<and>
   Log [Str ''   Burn tx:'', Str ''https://amoy.polygonscan.com/tx/0xb1''] \<in> set (fst (withdrawPOL w0))"
  using withdrawPOL_manual_handoff
      [of w0 "''0x6080''" 20000000000000000000 5000000000000000000 "''0xb1''"]
  by (simp add: w0_def or_default_def parseEther_5 amoy_tx_url_def)

text \<open>C9. When the code query for \<^verbatim>\<open>POL_AMOY\<close> answers \<^verbatim>\<open>0x\<close>, the withdrawal consists of
  the code query and one error line, and returns: no balance query, no transaction.\<close>

theorem withdrawPOL_empty_code:
  assumes "getCode_result w = Inr ''0x''"
  shows "withdrawPOL w =
     ([GetCode (POL_AMOY w),
       LogError [Str ''No contract found at POL_AMOY ('', Str (POL_AMOY w),
         Str ''). Make sure you copied the *token* contract address (from Amoy Polygonscan Token Tracker), not the manager/predicate.'']],
      Inr ())"
  using assms by (rule withdrawPOL_no_code)

theorem withdrawPOL_empty_code_witness:
  "snd (withdrawPOL w_no_code) = Inr () \<and> txs (fst (withdrawPOL w_no_code)) = [] \<and>
   length (fst (withdrawPOL w_no_code)) = 2 \<and> hd (fst (withdrawPOL w_no_code)) = GetCode ''0x1010''"
  using withdrawPOL_empty_code [of w_no_code]
  by (simp add: w_no_code_def w0_def)



lemma bridgePOL_start:
  assumes "parseEther (or_default (argv3 w) ''1'') = Inr a"
  shows "\<exists>rest. fst (bridgePOL w) =
     Log [Str ''Depositing '', Str (or_default (argv3 w) ''1''), Str '' POL ('', Ether a, Str '' POL)''] #
     Log [Str ''1) Approving DepositManager on Sepolia''] #
     SendTx (POL_SEPOLIA w) ''approve'' [Address (DEPOSIT_MANAGER w), Uint a] None # rest"
  using assms
  by (cases "approve_result w")
     (simp_all add: bridgePOL_def Let_def send_and_wait_def io_defs)

lemma poll_once_argv3: "poll_once (w\<lparr>argv3 := x\<rparr>) url i = poll_once w url i"
  by (simp add: poll_once_def)

lemma loop_argv3:
  "waitForCheckpoint_loop (w\<lparr>argv3 := x\<rparr>) url attempts = waitForCheckpoint_loop w url attempts"
proof (induction w url attempts rule: waitForCheckpoint_loop.induct)
  case (1 w url attempts)
  show ?case
  proof (cases "attempts < maxAttempts")
    case False
    then show ?thesis
      by (simp add: waitForCheckpoint_loop.simps [of _ url attempts])
  next
    case True
    show ?thesis
    proof (cases "snd (poll_once w url attempts)")
      case None
      with "1.IH" [OF True None] True show ?thesis
        by (simp add: waitForCheckpoint_loop.simps [of _ url attempts] poll_once_argv3)
    next
      case (Some d)
      with True show ?thesis
        by (simp add: waitForCheckpoint_loop.simps [of _ url attempts] poll_once_argv3)
    qed
  qed
qed

lemma processExit_argv3: "processExit (w\<lparr>argv3 := x\<rparr>) pd = processExit w pd"
  by (simp add: processExit_def start_exit_def cong: if_cong)

lemma waitForCheckpoint_argv3: "waitForCheckpoint (w\<lparr>argv3 := x\<rparr>) h = waitForCheckpoint w h"
  by (simp add: waitForCheckpoint_def loop_argv3)

lemma after_burn_argv3: "after_burn (w\<lparr>argv3 := x\<rparr>) h = after_burn w h"
  by (simp add: after_burn_def waitForCheckpoint_argv3 processExit_argv3 cong: if_cong)

lemma burn_argv3: "burn (w\<lparr>argv3 := x\<rparr>) a = burn w a"
  by (simp add: burn_def after_burn_argv3 split: prod.splits sum.splits)

lemma withdrawPOL_default:
  "argv3 w = None \<Longrightarrow> withdrawPOL w = withdrawPOL (w\<lparr>argv3 := Some ''1''\<rparr>)"
  by (simp add: withdrawPOL_def or_default_def burn_argv3 Let_def cong: if_cong)

lemma bridgePOL_default:
  "argv3 w = None \<Longrightarrow> bridgePOL w = bridgePOL (w\<lparr>argv3 := Some ''1''\<rparr>)"
  by (simp add: bridgePOL_def or_default_def)

lemma bridgePOL_run:
  assumes "parseEther (or_default (argv3 w) ''1'') = Inr a"
  shows "bridgePOL w =
    (case approve_result w of
       Rejected e \<Rightarrow>
         ([Log [Str ''Depositing '', Str (or_default (argv3 w) ''1''), Str '' POL ('', Ether a, Str '' POL)''],
           Log [Str ''1) Approving DepositManager on Sepolia''],
           SendTx (POL_SEPOLIA w) ''approve'' [Address (DEPOSIT_MANAGER w), Uint a] None], Inl e)
     | Reverted h e \<Rightarrow>
         ([Log [Str ''Depositing '', Str (or_default (argv3 w) ''1''), Str '' POL ('', Ether a, Str '' POL)''],
           Log [Str ''1) Approving DepositManager on Sepolia''],
           SendTx (POL_SEPOLIA w) ''approve'' [Address (DEPOSIT_MANAGER w), Uint a] None,
           WaitTx h], Inl e)
     | Mined h \<Rightarrow>
         io_prepend
           [Log [Str ''Depositing '', Str (or_default (argv3 w) ''1''), Str '' POL ('', Ether a, Str '' POL)''],
            Log [Str ''1) Approving DepositManager on Sepolia''],
            SendTx (POL_SEPOLIA w) ''approve'' [Address (DEPOSIT_MANAGER w), Uint a] None,
            WaitTx h,
            Log [Str ''Approval:'', Str (sepolia_tx_url h)],
            Log [Str ''2) depositERC20ForUser on Sepolia''],
            SendTx (DEPOSIT_MANAGER w) ''depositERC20ForUser''
              [Address (POL_SEPOLIA w), Address (wallet_address w), Uint a] None]
           (case deposit_result w of
              Rejected e \<Rightarrow> ([], Inl e)
            | Reverted h' e \<Rightarrow> ([WaitTx h'], Inl e)
            | Mined h' \<Rightarrow>
                ([WaitTx h',
                  Log [Str ''Deposit:'', Str (sepolia_tx_url h')],
                  Log [Str ''Deposit confirmed - funds will arrive on Amoy in ~25 min.'']],
                 Inr ())))"
  using assms
  by (cases "approve_result w"; cases "deposit_result w")
     (simp_all add: bridgePOL_def Let_def send_and_wait_def io_defs)

text \<open>C10. With no amount argument, \<^verbatim>\<open>deposit\<close> and \<^verbatim>\<open>withdraw\<close> run exactly as they do
  with the argument \<^verbatim>\<open>1\<close>, that is with 1000000000000000000 wei. The deposit prints its two
  opening lines and calls \<^verbatim>\<open>approve\<close> for that amount; its transactions are that call and,
  once it is mined, \<^verbatim>\<open>depositERC20ForUser\<close> for the same amount; when both are mined the whole
  run is the ten events listed and a normal return. The withdrawal (once the contract and
  the balance are found) compares the balance with that amount and burns it when the
  balance suffices. Neither prints a usage message nor fails for the missing argument.\<close>

theorem default_amount_one_token:
  assumes "argv3 w = None"
  shows "(argv2 w = Some ''deposit'' \<longrightarrow>
           main w = bridgePOL (w\<lparr>argv3 := Some ''1''\<rparr>) \<and>
           (\<exists>rest. fst (main w) =
              Log [Str ''Depositing '', Str ''1'', Str '' POL ('', Ether 1000000000000000000, Str '' POL)''] #
              Log [Str ''1) Approving DepositManager on Sepolia''] #
              SendTx (POL_SEPOLIA w) ''approve''
                [Address (DEPOSIT_MANAGER w), Uint 1000000000000000000] None # rest) \<and>
           txs (fst (main w)) =
             SendTx (POL_SEPOLIA w) ''approve''
               [Address (DEPOSIT_MANAGER w), Uint 1000000000000000000] None #
             (case approve_result w of
                Mined h \<Rightarrow>
                  [SendTx (DEPOSIT_MANAGER w) ''depositERC20ForUser''
                     [Address (POL_SEPOLIA w), Address (wallet_address w),
                      Uint 1000000000000000000] None]
              | Rejected e \<Rightarrow> []
              | Reverted h e \<Rightarrow> []) \<and>
           (\<forall>h h'. approve_result w = Mined h \<and> deposit_result w = Mined h' \<longrightarrow>
              main w =
                ([Log [Str ''Depositing '', Str ''1'', Str '' POL ('', Ether 1000000000000000000, Str '' POL)''],
                  Log [Str ''1) Approving DepositManager on Sepolia''],
                  SendTx (POL_SEPOLIA w) ''approve''
                    [Address (DEPOSIT_MANAGER w), Uint 1000000000000000000] None,
                  WaitTx h,
                  Log [Str ''Approval:'', Str (sepolia_tx_url h)],
                  Log [Str ''2) depositERC20ForUser on Sepolia''],
                  SendTx (DEPOSIT_MANAGER w) ''depositERC20ForUser''
                    [Address (POL_SEPOLIA w), Address (wallet_address w),
                     Uint 1000000000000000000] None,
                  WaitTx h',
                  Log [Str ''Deposit:'', Str (sepolia_tx_url h')],
                  Log [Str ''Deposit confirmed - funds will arrive on Amoy in ~25 min.'']],
                 Inr ()))) \<and>
         (argv2 w = Some ''withdraw'' \<longrightarrow> main w = withdrawPOL (w\<lparr>argv3 := Some ''1''\<rparr>)) \<and>
         (argv2 w = Some ''withdraw'' \<and> getCode_result w = Inr code \<and> code \<noteq> ''0x'' \<and>
          balanceOf_result w = Inr bal \<longrightarrow>
           (if bal < 1000000000000000000 then
              txs (fst (main w)) = [] \<and>
              last (fst (main w)) =
                LogError [Str ''Insufficient balance. Need '', Ether 1000000000000000000,
                          Str '' POL, have '', Ether bal, Str '' POL'']
            else
              (\<exists>rest. txs (fst (main w)) =
                 SendTx (POL_AMOY w) ''withdraw'' [Uint 1000000000000000000]
                   (Some 1000000000000000000) # rest)))"
proof -
  from assms have amount: "parseEther (or_default (argv3 w) ''1'') = Inr 1000000000000000000"
    and arg: "or_default (argv3 w) ''1'' = ''1''"
    by (simp_all add: or_default_def parseEther_1)
  have dep: "argv2 w = Some ''deposit'' \<Longrightarrow> main w = bridgePOL w"
    by (simp add: main_def)
  have wd: "argv2 w = Some ''withdraw'' \<Longrightarrow> main w = withdrawPOL w"
    by (simp add: main_def)
  note run = bridgePOL_run [OF amount, unfolded arg]
  have d1: "argv2 w = Some ''deposit'' \<Longrightarrow> main w = bridgePOL (w\<lparr>argv3 := Some ''1''\<rparr>)"
    using dep bridgePOL_default [OF assms] by simp
  have d2: "argv2 w = Some ''deposit'' \<Longrightarrow> \<exists>rest. fst (main w) =
              Log [Str ''Depositing '', Str ''1'', Str '' POL ('', Ether 1000000000000000000, Str '' POL)''] #
              Log [Str ''1) Approving DepositManager on Sepolia''] #
              SendTx (POL_SEPOLIA w) ''approve''
                [Address (DEPOSIT_MANAGER w), Uint 1000000000000000000] None # rest"
    using dep bridgePOL_start [OF amount] arg by simp
  have d3: "argv2 w = Some ''deposit'' \<Longrightarrow> txs (fst (main w)) =
             SendTx (POL_SEPOLIA w) ''approve''
               [Address (DEPOSIT_MANAGER w), Uint 1000000000000000000] None #
             (case approve_result w of
                Mined h \<Rightarrow>
                  [SendTx (DEPOSIT_MANAGER w) ''depositERC20ForUser''
                     [Address (POL_SEPOLIA w), Address (wallet_address w),
                      Uint 1000000000000000000] None]
              | Rejected e \<Rightarrow> []
              | Reverted h e \<Rightarrow> [])"
    using dep run
    by (cases "approve_result w"; cases "deposit_result w") simp_all
  have d4: "argv2 w = Some ''deposit'' \<Longrightarrow>
      \<forall>h h'. approve_result w = Mined h \<and> deposit_result w = Mined h' \<longrightarrow>
              main w =
                ([Log [Str ''Depositing '', Str ''1'', Str '' POL ('', Ether 1000000000000000000, Str '' POL)''],
                  Log [Str ''1) Approving DepositManager on Sepolia''],
                  SendTx (POL_SEPOLIA w) ''approve''
                    [Address (DEPOSIT_MANAGER w), Uint 1000000000000000000] None,
                  WaitTx h,
                  Log [Str ''Approval:'', Str (sepolia_tx_url h)],
                  Log [Str ''2) depositERC20ForUser on Sepolia''],
                  SendTx (DEPOSIT_MANAGER w) ''depositERC20ForUser''
                    [Address (POL_SEPOLIA w), Address (wallet_address w),
                     Uint 1000000000000000000] None,
                  WaitTx h',
                  Log [Str ''Deposit:'', Str (sepolia_tx_url h')],
                  Log [Str ''Deposit confirmed - funds will arrive on Amoy in ~25 min.'']],
                 Inr ())"
    using dep run by simp
  have w1: "argv2 w = Some ''withdraw'' \<Longrightarrow> main w = withdrawPOL (w\<lparr>argv3 := Some ''1''\<rparr>)"
    using wd withdrawPOL_default [OF assms] by simp
  have w2: "argv2 w = Some ''withdraw'' \<and> getCode_result w = Inr code \<and> code \<noteq> ''0x'' \<and>
          balanceOf_result w = Inr bal \<Longrightarrow>
           (if bal < 1000000000000000000 then
              txs (fst (main w)) = [] \<and>
              last (fst (main w)) =
                LogError [Str ''Insufficient balance. Need '', Ether 1000000000000000000,
                          Str '' POL, have '', Ether bal, Str '' POL'']
            else
              (\<exists>rest. txs (fst (main w)) =
                 SendTx (POL_AMOY w) ''withdraw'' [Uint 1000000000000000000]
                   (Some 1000000000000000000) # rest))"
  proof -
    assume h: "argv2 w = Some ''withdraw'' \<and> getCode_result w = Inr code \<and> code \<noteq> ''0x'' \<and>
          balanceOf_result w = Inr bal"
    obtain rest where "fst (burn w 1000000000000000000) =
        SendTx (POL_AMOY w) ''withdraw'' [Uint 1000000000000000000] (Some 1000000000000000000) # rest"
      using burn_first by blast
    with h wd withdrawPOL_checked [of w code bal 1000000000000000000, OF _ _ _ amount]
    show ?thesis
      by simp
  qed
  from d1 d2 d3 d4 w1 w2 show ?thesis
    by blast
qed

theorem default_amount_one_token_witness:
  "main w_deposit =
     ([Log [Str ''Depositing '', Str ''1'', Str '' POL ('', Ether 1000000000000000000, Str '' POL)''],
       Log [Str ''1) Approving DepositManager on Sepolia''],
       SendTx ''0xPS'' ''approve'' [Address ''0xDM'', Uint 1000000000000000000] None,
       WaitTx ''0xa1'',
       Log [Str ''Approval:'', Str (sepolia_tx_url ''0xa1'')],
       Log [Str ''2) depositERC20ForUser on Sepolia''],
       SendTx ''0xDM'' ''depositERC20ForUser''
         [Address ''0xPS'', Address ''0xME'', Uint 1000000000000000000] None,
       WaitTx ''0xd1'',
       Log [Str ''Deposit:'', Str (sepolia_tx_url ''0xd1'')],
       Log [Str ''Deposit confirmed - funds will arrive on Amoy in ~25 min.'']],
      Inr ()) \<and>
   (\<exists>rest. txs (fst (main w_default)) =
      SendTx ''0x1010'' ''withdraw'' [Uint 1000000000000000000] (Some 1000000000000000000) # rest)"
proof -
  have a: "argv3 w_deposit = None \<and> argv2 w_deposit = Some ''deposit'' \<and>
      approve_result w_deposit = Mined ''0xa1'' \<and> deposit_result w_deposit = Mined ''0xd1'' \<and>
      POL_SEPOLIA w_deposit = ''0xPS'' \<and> DEPOSIT_MANAGER w_deposit = ''0xDM'' \<and>
      wallet_address w_deposit = ''0xME''"
    by (simp add: w_deposit_def w0_def)
  have b: "argv3 w_default = None \<and> argv2 w_default = Some ''withdraw'' \<and>
      getCode_result w_default = Inr ''0x6080'' \<and> ''0x6080'' \<noteq> ''0x'' \<and>
      balanceOf_result w_default = Inr 20000000000000000000 \<and>
      \<not> (20000000000000000000 :: int) < 1000000000000000000 \<and>
      POL_AMOY w_default = ''0x1010''"
    by (simp add: w_default_def w0_def)
  from a default_amount_one_token [of w_deposit "''0x6080''" 0]
  have "main w_deposit =
     ([Log [Str ''Depositing '', Str ''1'', Str '' POL ('', Ether 1000000000000000000, Str '' POL)''],
       Log [Str ''1) Approving DepositManager on Sepolia''],
       SendTx ''0xPS'' ''approve'' [Address ''0xDM'', Uint 1000000000000000000] None,
       WaitTx ''0xa1'',
       Log [Str ''Approval:'', Str (sepolia_tx_url ''0xa1'')],
       Log [Str ''2) depositERC20ForUser on Sepolia''],
       SendTx ''0xDM'' ''depositERC20ForUser''
         [Address ''0xPS'', Address ''0xME'', Uint 1000000000000000000] None,
       WaitTx ''0xd1'',
       Log [Str ''Deposit:'', Str (sepolia_tx_url ''0xd1'')],
       Log [Str ''Deposit confirmed - funds will arrive on Amoy in ~25 min.'']],
      Inr ())"
    by metis
  moreover from b default_amount_one_token [of w_default "''0x6080''" 20000000000000000000]
  have "\<exists>rest. txs (fst (main w_default)) =
      SendTx ''0x1010'' ''withdraw'' [Uint 1000000000000000000] (Some 1000000000000000000) # rest"
    by metis
  ultimately show ?thesis
    by blast
qed

lemma fetches_poll_rounds: "length (fetches (poll_rounds url n)) = n"
  by (induction n) (simp_all add: poll_rounds_def)

lemma waitForCheckpoint_fst:
  "fst (waitForCheckpoint w h) =
     Log [Str ''Polling checkpoint status...''] # fst (waitForCheckpoint_loop w (proofUrl h) 0)"
  by (simp add: waitForCheckpoint_def)

lemma waitForCheckpoint_snd:
  "snd (waitForCheckpoint w h) = snd (waitForCheckpoint_loop w (proofUrl h) 0)"
  by (simp add: waitForCheckpoint_def)

lemma keeps_polling_cases:
  "keeps_polling (NetworkError e)"
  "\<not> response_ok status \<Longrightarrow> keeps_polling (Response status body)"
  "keeps_polling (Response status (Inl e))"
  "keeps_polling (Response 400 body)"
  "keeps_polling (Response 404 body)"
  by (simp_all add: keeps_polling_def response_ok_def)

text \<open>C2. The loop tests \<^verbatim>\<open>response.ok\<close>, not the status 200: a response with status 201
  and a JSON body ends the polling after one request, although its status is not 200.\<close>

theorem waitForCheckpoint_ok_status_counterexample:
  "fetch_result w_201 0 = Response 201 (Inr proof0) \<and>
   snd (waitForCheckpoint w_201 ''0xb1'') = Inr proof0 \<and>
   net (fst (waitForCheckpoint w_201 ''0xb1'')) = [Fetch (proofUrl ''0xb1'')]"
proof -
  have "snd (poll_once w_201 (proofUrl ''0xb1'') 0) = Some proof0"
    by (simp add: poll_once_Some w_201_def response_ok_def proof0_def)
  from loop_found [of 0 0 w_201 "proofUrl ''0xb1''" proof0, OF _ _ _ this]
  show ?thesis
    by (simp add: waitForCheckpoint_fst waitForCheckpoint_snd maxAttempts_def poll_rounds_def w_201_def)
qed

text \<open>C2, as the code has it. \<open>waitForCheckpoint\<close> makes at most 360 requests, all to the
  proof URL of the transaction, and its only pauses are of 30 seconds. It returns the
  parsed body at the first answer that has a status from 200 to 299 and a JSON body other
  than \<^verbatim>\<open>null\<close>, after one request and one 30-second pause for each earlier answer. A
  status 400 or 404, any other status outside 200 to 299, a network failure and a body that
  is not JSON all make the loop go on.\<close>

theorem waitForCheckpoint_polling:
  "length (fetches (fst (waitForCheckpoint w h))) \<le> 360 \<and>
   (\<forall>e \<in> set (net (fst (waitForCheckpoint w h))). e = Fetch (proofUrl h) \<or> e = Sleep 30000) \<and>
   (k < 360 \<and> (\<forall>i<k. keeps_polling (fetch_result w i)) \<and>
    fetch_result w k = Response status (Inr data) \<and> response_ok status \<and> data \<noteq> JNull \<longrightarrow>
      snd (waitForCheckpoint w h) = Inr data \<and>
      net (fst (waitForCheckpoint w h)) = poll_rounds (proofUrl h) k @ [Fetch (proofUrl h)]) \<and>
   keeps_polling (Response 400 body) \<and> keeps_polling (Response 404 body) \<and>
   keeps_polling (NetworkError e) \<and> keeps_polling (Response status' (Inl e)) \<and>
   (\<not> response_ok status' \<longrightarrow> keeps_polling (Response status' body))"
proof (intro conjI impI)
  show "length (fetches (fst (waitForCheckpoint w h))) \<le> 360"
    using loop_bound [of w "proofUrl h" 0]
    by (simp add: waitForCheckpoint_fst maxAttempts_def)
  show "\<forall>e \<in> set (net (fst (waitForCheckpoint w h))). e = Fetch (proofUrl h) \<or> e = Sleep 30000"
    using loop_sleeps [of w "proofUrl h" 0]
    by (simp add: waitForCheckpoint_fst)
next
  assume a: "k < 360 \<and> (\<forall>i<k. keeps_polling (fetch_result w i)) \<and>
    fetch_result w k = Response status (Inr data) \<and> response_ok status \<and> data \<noteq> JNull"
  then have "snd (poll_once w (proofUrl h) k) = Some data"
    by (auto simp: poll_once_Some)
  from loop_found [of 0 k w "proofUrl h" data, OF _ _ _ this] a
  show "snd (waitForCheckpoint w h) = Inr data"
    "net (fst (waitForCheckpoint w h)) = poll_rounds (proofUrl h) k @ [Fetch (proofUrl h)]"
    by (simp_all add: waitForCheckpoint_fst waitForCheckpoint_snd maxAttempts_def)
qed (simp_all add: keeps_polling_cases)

theorem waitForCheckpoint_polling_witness:
  "snd (waitForCheckpoint w0 ''0xb1'') = Inr proof0 \<and>
   net (fst (waitForCheckpoint w0 ''0xb1'')) =
     poll_rounds (proofUrl ''0xb1'') 3 @ [Fetch (proofUrl ''0xb1'')] \<and>
   length (fetches (fst (waitForCheckpoint w0 ''0xb1''))) \<le> 360"
  using waitForCheckpoint_polling [of w0 "''0xb1''" 3 200 proof0]
  by (simp add: w0_def keeps_polling_def response_ok_def proof0_def)

text \<open>C4. When each of the 360 attempts ends without a return (no answer with a success
  status and a usable JSON body), \<open>waitForCheckpoint\<close> has made 360 requests, each followed
  by a 30-second pause, and throws the checkpoint-timeout error. That error is the only
  one the function ever throws: network and API errors are logged inside the loop and
  never surface.\<close>

theorem waitForCheckpoint_timeout:
  "((\<forall>i<360. keeps_polling (fetch_result w i)) \<longrightarrow>
      snd (waitForCheckpoint w h) = Inl checkpoint_timeout \<and>
      net (fst (waitForCheckpoint w h)) = poll_rounds (proofUrl h) 360 \<and>
      length (fetches (fst (waitForCheckpoint w h))) = 360) \<and>
   (\<forall>e. snd (waitForCheckpoint w h) = Inl e \<longrightarrow> e = checkpoint_timeout)"
proof (intro conjI impI allI)
  assume "\<forall>i<360. keeps_polling (fetch_result w i)"
  then have "\<forall>i. 0 \<le> i \<and> i < maxAttempts \<longrightarrow> keeps_polling (fetch_result w i)"
    by (simp add: maxAttempts_def)
  from loop_timeout [OF this, of "proofUrl h"]
  show "snd (waitForCheckpoint w h) = Inl checkpoint_timeout"
    and n: "net (fst (waitForCheckpoint w h)) = poll_rounds (proofUrl h) 360"
    by (simp_all add: waitForCheckpoint_fst waitForCheckpoint_snd maxAttempts_def)
  have "fetches (fst (waitForCheckpoint w h)) = fetches (net (fst (waitForCheckpoint w h)))"
    by (simp add: fetches_def net_def) (metis (mono_tags, lifting) filter_cong is_fetch.elims(2) is_net.simps(1))
  with n show "length (fetches (fst (waitForCheckpoint w h))) = 360"
    by (simp add: fetches_poll_rounds)
next
  fix e
  assume "snd (waitForCheckpoint w h) = Inl e"
  then show "e = checkpoint_timeout"
    using loop_error [of w "proofUrl h" 0 e]
    by (simp add: waitForCheckpoint_snd)
qed

theorem waitForCheckpoint_timeout_witness:
  "snd (waitForCheckpoint w_down ''0xb1'') = Inl checkpoint_timeout \<and>
   length (fetches (fst (waitForCheckpoint w_down ''0xb1''))) = 360"
proof -
  have "\<forall>i<360. keeps_polling (fetch_result w_down i)"
    by (simp add: w_down_def keeps_polling_def)
  with waitForCheckpoint_timeout [of w_down "''0xb1''"] show ?thesis
    by blast
qed

subsection \<open>Exit processing\<close>

lemma calls_append [simp]: "calls m (a @ b) = calls m a @ calls m b"
  by (simp add: calls_def)

lemma calls_Nil [simp]: "calls m [] = []"
  by (simp add: calls_def)

lemma calls_Cons [simp]:
  "calls m (e # t) = (if tx_method e = Some m then e # calls m t else calls m t)"
  by (simp add: calls_def)

lemma calls_txs: "calls m (txs t) = calls m t"
  by (induction t) (auto elim: is_tx.elims)


lemma start_exit_known:
  "get_result pd = Inr r \<Longrightarrow> tx_failure (startExit_result w) = Some e \<Longrightarrow>
   str_includes e ''KNOWN_EXIT'' \<Longrightarrow>
   snd (start_exit w pd) = Inr () \<and>
   txs (fst (start_exit w pd)) =
     [SendTx (ERC20_PREDICATE w) ''startExitWithBurntTokens'' [Bytes r] None]"
  by (cases "startExit_result w") (simp_all add: start_exit_def send_and_wait_def io_defs)

lemma start_exit_fatal:
  "get_result pd = Inr r \<Longrightarrow> tx_failure (startExit_result w) = Some e \<Longrightarrow>
   \<not> str_includes e ''KNOWN_EXIT'' \<Longrightarrow>
   snd (start_exit w pd) = Inl e \<and>
   txs (fst (start_exit w pd)) =
     [SendTx (ERC20_PREDICATE w) ''startExitWithBurntTokens'' [Bytes r] None]"
  by (cases "startExit_result w") (simp_all add: start_exit_def send_and_wait_def io_defs)

lemma manual_hint_and_throw_eq:
  "get_result pd = Inr r \<Longrightarrow>
   manual_hint_and_throw pd e =
     ([Log [Str ''You can complete the exit manually using the proof:''],
       Log [Str ''Proof data:'', Val r]], Inl e)"
  by (simp add: manual_hint_and_throw_def io_defs)

lemma processExit_start_fatal:
  assumes "get_result pd = Inr r" and "snd (start_exit w pd) = Inl e"
    and "\<not> str_includes e ''KNOWN_EXIT''"
  shows "snd (processExit w pd) = Inl e"
    and "txs (fst (processExit w pd)) = txs (fst (start_exit w pd))"
    and "LogError [Str ''Exit processing failed:'', Str e] \<in> set (fst (processExit w pd))"
  using assms
  by (simp_all add: processExit_def io_bind_def io_try_def io_defs manual_hint_and_throw_eq)

lemma processExit_mined:
  assumes "get_result pd = Inr r" and "snd (start_exit w pd) = Inr ()"
    and "processExits_result w = Mined h"
  shows "snd (processExit w pd) = Inr ()"
    and "txs (fst (processExit w pd)) =
           txs (fst (start_exit w pd)) @
           [SendTx (WITHDRAW_MANAGER w) ''processExits'' [Address (POL_SEPOLIA w)] None]"
  using assms
  by (simp_all add: processExit_def io_bind_def io_try_def io_defs send_and_wait_def)

lemma processExit_finalize_fatal:
  assumes "get_result pd = Inr r" and "snd (start_exit w pd) = Inr ()"
    and "tx_failure (processExits_result w) = Some e" and "\<not> str_includes e ''KNOWN_EXIT''"
  shows "snd (processExit w pd) = Inl e"
    and "txs (fst (processExit w pd)) =
           txs (fst (start_exit w pd)) @
           [SendTx (WITHDRAW_MANAGER w) ''processExits'' [Address (POL_SEPOLIA w)] None]"
    and "LogError [Str ''Exit processing failed:'', Str e] \<in> set (fst (processExit w pd))"
  using assms
  by (cases "processExits_result w";
      simp add: processExit_def io_bind_def io_try_def io_defs send_and_wait_def
        manual_hint_and_throw_eq)+

lemma processExit_finalize_retry:
  assumes "get_result pd = Inr r" and "snd (start_exit w pd) = Inr ()"
    and "tx_failure (processExits_result w) = Some e" and "str_includes e ''KNOWN_EXIT''"
  shows "txs (fst (processExit w pd)) =
           txs (fst (start_exit w pd)) @
           [SendTx (WITHDRAW_MANAGER w) ''processExits'' [Address (POL_SEPOLIA w)] None,
            SendTx (WITHDRAW_MANAGER w) ''processExits'' [Address (POL_SEPOLIA w)] None]"
    and "snd (processExit w pd) =
           (case tx_failure (processExits_retry_result w) of None \<Rightarrow> Inr () | Some e' \<Rightarrow> Inl e)"
    and "LogError [Str ''Exit processing failed:'', Str e] \<in> set (fst (processExit w pd))"
  using assms
  by (cases "processExits_result w"; cases "processExits_retry_result w";
      simp add: processExit_def io_bind_def io_try_def io_defs send_and_wait_def
        manual_hint_and_throw_eq)+

lemma start_exit_no_processExits: "calls ''processExits'' (fst (start_exit w pd)) = []"
  by (cases "get_result pd"; cases "startExit_result w")
     (simp_all add: start_exit_def send_and_wait_def io_defs)


lemma waitForCheckpoint_txs: "txs (fst (waitForCheckpoint w h)) = []"
  by (simp add: waitForCheckpoint_fst loop_txs)

lemma completeExit_run:
  assumes "argv3 w = Some h" and "h \<noteq> []" and "snd (waitForCheckpoint w h) = Inr pd"
  shows "snd (completeExit w) = Inr ()"
    and "fst (completeExit w) =
      Log [Str ''Completing exit for: '', Str h] # fst (waitForCheckpoint w h) @
      fst (processExit w pd) @
      [case snd (processExit w pd) of
         Inr u \<Rightarrow> Log [Str ''Exit completed successfully!'']
       | Inl e \<Rightarrow> LogError [Str ''Exit completion failed:'', Str e]]"
  using assms
  by (simp_all add: completeExit_def or_default_def io_bind_def io_try_def io_defs
      split: sum.splits)




lemma w0_checkpoint:
  assumes "fetch_result w = fetch_result w0"
  shows "snd (waitForCheckpoint w ''0xb1'') = Inr proof0"
proof -
  have "snd (poll_once w (proofUrl ''0xb1'') 3) = Some proof0"
    by (simp add: poll_once_Some assms w0_def response_ok_def proof0_def)
  moreover have "\<forall>i. 0 \<le> i \<and> i < 3 \<longrightarrow> keeps_polling (fetch_result w i)"
    by (simp add: assms w0_def keeps_polling_def)
  ultimately show ?thesis
    using loop_found [of 0 3 w "proofUrl ''0xb1''" proof0]
    by (simp add: waitForCheckpoint_snd maxAttempts_def)
qed

lemma console_append [simp]: "console (a @ b) = console a @ console b"
  by (simp add: console_def)

lemma console_Nil [simp]: "console [] = []"
  by (simp add: console_def)

lemma console_Cons [simp]:
  "console (e # t) = (if is_console e then e # console t else console t)"
  by (simp add: console_def)





text \<open>C3. Let the proof data be a JSON value other than \<^verbatim>\<open>null\<close> and let the start-exit call
  fail with message \<open>e\<close>. If \<open>e\<close> includes \<^verbatim>\<open>KNOWN_EXIT\<close>, \<open>processExit\<close> still calls
  \<^verbatim>\<open>processExits\<close> right after the start-exit call, and when that call is mined it returns
  normally and \<open>completeExit\<close> ends with the line that the exit completed. If \<open>e\<close> does not
  include \<^verbatim>\<open>KNOWN_EXIT\<close>, \<open>processExit\<close> throws \<open>e\<close>, the start-exit call is its only
  transaction, and \<open>completeExit\<close> ends with the error line carrying \<open>e\<close> without any
  \<^verbatim>\<open>processExits\<close> call.\<close>

theorem processExit_duplicate_exit:
  assumes "get_result pd = Inr r" and "tx_failure (startExit_result w) = Some e"
  shows "(str_includes e ''KNOWN_EXIT'' \<longrightarrow>
           (\<exists>rest. txs (fst (processExit w pd)) =
              SendTx (ERC20_PREDICATE w) ''startExitWithBurntTokens'' [Bytes r] None #
              SendTx (WITHDRAW_MANAGER w) ''processExits'' [Address (POL_SEPOLIA w)] None # rest) \<and>
           (\<forall>h. processExits_result w = Mined h \<longrightarrow>
              snd (processExit w pd) = Inr () \<and>
              (\<forall>tx. argv3 w = Some tx \<and> tx \<noteq> [] \<and> snd (waitForCheckpoint w tx) = Inr pd \<longrightarrow>
                 snd (completeExit w) = Inr () \<and>
                 last (fst (completeExit w)) = Log [Str ''Exit completed successfully!'']))) \<and>
         (\<not> str_includes e ''KNOWN_EXIT'' \<longrightarrow>
           snd (processExit w pd) = Inl e \<and>
           txs (fst (processExit w pd)) =
             [SendTx (ERC20_PREDICATE w) ''startExitWithBurntTokens'' [Bytes r] None] \<and>
           calls ''processExits'' (fst (processExit w pd)) = [] \<and>
           (\<forall>tx. argv3 w = Some tx \<and> tx \<noteq> [] \<and> snd (waitForCheckpoint w tx) = Inr pd \<longrightarrow>
              snd (completeExit w) = Inr () \<and>
              last (fst (completeExit w)) = LogError [Str ''Exit completion failed:'', Str e] \<and>
              calls ''processExits'' (fst (completeExit w)) = []))"
proof (intro conjI impI allI)
  assume known: "str_includes e ''KNOWN_EXIT''"
  note se = start_exit_known [OF assms known]
  show "\<exists>rest. txs (fst (processExit w pd)) =
              SendTx (ERC20_PREDICATE w) ''startExitWithBurntTokens'' [Bytes r] None #
              SendTx (WITHDRAW_MANAGER w) ''processExits'' [Address (POL_SEPOLIA w)] None # rest"
  proof (cases "tx_failure (processExits_result w)")
    case None
    then obtain h where "processExits_result w = Mined h"
      by (cases "processExits_result w") simp_all
    from processExit_mined(2) [OF assms(1) conjunct1 [OF se] this] se show ?thesis
      by simp
  next
    case (Some e')
    show ?thesis
    proof (cases "str_includes e' ''KNOWN_EXIT''")
      case True
      from processExit_finalize_retry(1) [OF assms(1) conjunct1 [OF se] Some True] se
      show ?thesis by simp
    next
      case False
      from processExit_finalize_fatal(2) [OF assms(1) conjunct1 [OF se] Some False] se
      show ?thesis by simp
    qed
  qed
  fix h
  assume mined: "processExits_result w = Mined h"
  show ok: "snd (processExit w pd) = Inr ()"
    using processExit_mined(1) [OF assms(1) conjunct1 [OF se] mined] .
  fix tx
  assume run: "argv3 w = Some tx \<and> tx \<noteq> [] \<and> snd (waitForCheckpoint w tx) = Inr pd"
  then show "snd (completeExit w) = Inr ()"
    using completeExit_run(1) [of w tx pd] by simp
  from run ok show "last (fst (completeExit w)) = Log [Str ''Exit completed successfully!'']"
    using completeExit_run(2) [of w tx pd] by simp
next
  assume fatal: "\<not> str_includes e ''KNOWN_EXIT''"
  note se = start_exit_fatal [OF assms fatal]
  show err: "snd (processExit w pd) = Inl e"
    using processExit_start_fatal(1) [OF assms(1) conjunct1 [OF se] fatal] .
  show t: "txs (fst (processExit w pd)) =
             [SendTx (ERC20_PREDICATE w) ''startExitWithBurntTokens'' [Bytes r] None]"
    using processExit_start_fatal(2) [OF assms(1) conjunct1 [OF se] fatal] se by simp
  have "calls ''processExits'' (txs (fst (processExit w pd))) = []"
    by (simp add: t)
  then show c: "calls ''processExits'' (fst (processExit w pd)) = []"
    by (simp add: calls_txs)
  fix tx
  assume run: "argv3 w = Some tx \<and> tx \<noteq> [] \<and> snd (waitForCheckpoint w tx) = Inr pd"
  then show "snd (completeExit w) = Inr ()"
    using completeExit_run(1) [of w tx pd] by simp
  from run err show "last (fst (completeExit w)) = LogError [Str ''Exit completion failed:'', Str e]"
    using completeExit_run(2) [of w tx pd] by simp
  have "calls ''processExits'' (txs (fst (waitForCheckpoint w tx))) = []"
    by (simp add: waitForCheckpoint_txs)
  then have "calls ''processExits'' (fst (waitForCheckpoint w tx)) = []"
    by (simp add: calls_txs)
  with run c show "calls ''processExits'' (fst (completeExit w)) = []"
    using completeExit_run(2) [of w tx pd] by (simp split: sum.splits)
qed

theorem processExit_duplicate_exit_witness:
  "snd (processExit w_known proof0) = Inr () \<and>
   snd (completeExit w_known) = Inr () \<and>
   last (fst (completeExit w_known)) = Log [Str ''Exit completed successfully!''] \<and>
   (\<exists>rest. txs (fst (processExit w_known proof0)) =
      SendTx ''0xEP'' ''startExitWithBurntTokens'' [Bytes (Some (JStr ''0xf90a''))] None #
      SendTx ''0xWM'' ''processExits'' [Address ''0xPS''] None # rest)"
proof -
  have a: "get_result proof0 = Inr (Some (JStr ''0xf90a''))"
    by (simp add: proof0_def)
  have b: "tx_failure (startExit_result w_known) = Some ''execution reverted: KNOWN_EXIT''"
    by (simp add: w_known_def w0_def)
  have c: "str_includes ''execution reverted: KNOWN_EXIT'' ''KNOWN_EXIT''"
    by simp
  have d: "processExits_result w_known = Mined ''0xp1''"
    by (simp add: w_known_def w0_def)
  have e: "argv3 w_known = Some ''0xb1'' \<and> ''0xb1'' \<noteq> [] \<and>
      snd (waitForCheckpoint w_known ''0xb1'') = Inr proof0"
    using w0_checkpoint [of w_known] by (simp add: w_known_def)
  have f: "ERC20_PREDICATE w_known = ''0xEP'' \<and> WITHDRAW_MANAGER w_known = ''0xWM'' \<and>
      POL_SEPOLIA w_known = ''0xPS''"
    by (simp add: w_known_def w0_def)
  from processExit_duplicate_exit [OF a b] c d e f show ?thesis
    by metis
qed




end
